theory Spec2Isabelle
  imports Complex_Main "HOL-Library.Multiset"
begin

section \<open>Values, errors and the backing store\<close>

text \<open>
  Python values that reach a serialized dictionary. The CSV columns that pandas reads as
  floating point (GDP, revenue, price, export value, coordinates) are idealised as
  \<^typ>\<open>real\<close>, so rounding, infinities and NaN are left out of them. The cells of the
  integer columns (ids, years, tonnes) are integers of the 64-bit range, written as
  \<^typ>\<open>int\<close>. Text columns are \<^typ>\<open>string\<close>, read as ASCII.
\<close>

datatype pyval = PyInt int | PyFloat real | PyStr string

subsection \<open>numpy scalars\<close>

text \<open>
  A row of a table whose columns are all numeric reaches the code as a Series of one
  dtype: \<open>int64\<close> when every column is an integer column, \<open>float64\<close> as soon as one
  column holds floats. The integers of such a row are then numpy scalars of that dtype.
  An \<open>int64\<close> sum wraps around modulo \<open>2\<^sup>6\<^sup>4\<close>; a \<open>float64\<close> holds an integer
  exactly up to \<open>2\<^sup>5\<^sup>3\<close> in magnitude and otherwise the nearest value with 53
  significant bits, ties going to the even one (an overflow to infinity, beyond
  \<open>2\<^sup>1\<^sup>0\<^sup>2\<^sup>4\<close>, is out of reach of sums of 64-bit cells and is left out).
\<close>

datatype dtype = int64 | float64

definition wrap_int64 :: "int \<Rightarrow> int" where
  "wrap_int64 x = (x + 2 ^ 63) mod 2 ^ 64 - 2 ^ 63"

function bit_length :: "int \<Rightarrow> nat" where
  "bit_length n = (if n \<le> 0 then 0 else Suc (bit_length (n div 2)))"
  by pat_completeness auto
termination
  by (relation "measure nat") auto

declare bit_length.simps [simp del]

definition round_float64 :: "int \<Rightarrow> int" where
  "round_float64 x =
     (if \<bar>x\<bar> \<le> 2 ^ 53 then x
      else
        (let q = 2 ^ (bit_length \<bar>x\<bar> - 53);
             d = \<bar>x\<bar> div q;
             r = \<bar>x\<bar> mod q;
             m = (if 2 * r > q \<or> (2 * r = q \<and> odd d) then d + 1 else d)
         in sgn x * (m * q)))"

text \<open>An integer cell as a scalar of the row's dtype, and the sum of two such scalars.\<close>

definition np_cast :: "dtype \<Rightarrow> int \<Rightarrow> int" where
  "np_cast dt x = (case dt of int64 \<Rightarrow> x | float64 \<Rightarrow> round_float64 x)"

definition np_add :: "dtype \<Rightarrow> int \<Rightarrow> int \<Rightarrow> int" where
  "np_add dt a b = (case dt of int64 \<Rightarrow> wrap_int64 (a + b) | float64 \<Rightarrow> round_float64 (a + b))"

text \<open>What a serialized dictionary holds for such a scalar: an integer or a float.\<close>

definition np_pyval :: "dtype \<Rightarrow> int \<Rightarrow> pyval" where
  "np_pyval dt x = (case dt of int64 \<Rightarrow> PyInt x | float64 \<Rightarrow> PyFloat (real_of_int x))"

text \<open>The exceptions that the modelled code can raise.\<close>

datatype py_error = KeyError pyval | NameError string | IndexError

text \<open>One raw row per table, with the column names of the CSV files.\<close>

record user_row =
  UserID :: int
  Username :: string
  PasswordHash :: string
  RoleID :: int
  Email :: string

record role_row =
  RoleID :: int
  RoleName :: string
  Permissions :: string

record country_row =
  CountryID :: int
  CountryName :: string
  GDP_BillionUSD :: real
  MiningRevenue_BillionUSD :: real
  KeyProjects :: string

record mineral_row =
  MineralID :: int
  MineralName :: string
  Description :: string
  MarketPriceUSD_per_tonne :: real

record stat_row =
  StatID :: int
  Year :: int
  CountryID :: int
  MineralID :: int
  Production_tonnes :: int
  ExportValue_BillionUSD :: real

record site_row =
  SiteID :: int
  SiteName :: string
  CountryID :: int
  MineralID :: int
  Latitude :: real
  Longitude :: real
  Production_tonnes :: int

text \<open>
  A pandas DataFrame: its column labels and its rows in file order. \<open>pd.DataFrame()\<close>
  has no column and no row.
\<close>

record 'r dataframe =
  columns :: "string list"
  rows :: "'r list"

definition pd_DataFrame :: "'r dataframe" where
  "pd_DataFrame = \<lparr>columns = [], rows = []\<rparr>"

text \<open>
  The data folder: each CSV file is either missing (\<open>None\<close>) or holds the rows of its
  table under the header of its schema. The production table is the one table whose
  columns are all numeric; \<open>production_stats_dtype\<close> is the dtype that its rows get:
  \<open>int64\<close> when every export value of the file is written as an integer, \<open>float64\<close>
  otherwise. The rows of the other tables hold text and keep each cell as it is.
\<close>

record database =
  users_file :: "user_row list option"
  roles_file :: "role_row list option"
  countries_file :: "country_row list option"
  minerals_file :: "mineral_row list option"
  production_stats_file :: "stat_row list option"
  production_stats_dtype :: dtype
  sites_file :: "site_row list option"

definition users_header :: "string list" where
  "users_header = [''UserID'', ''Username'', ''PasswordHash'', ''RoleID'', ''Email'']"

definition roles_header :: "string list" where
  "roles_header = [''RoleID'', ''RoleName'', ''Permissions'']"

definition countries_header :: "string list" where
  "countries_header =
     [''CountryID'', ''CountryName'', ''GDP_BillionUSD'', ''MiningRevenue_BillionUSD'',
      ''KeyProjects'']"

definition minerals_header :: "string list" where
  "minerals_header = [''MineralID'', ''MineralName'', ''Description'', ''MarketPriceUSD_per_tonne'']"

definition production_stats_header :: "string list" where
  "production_stats_header =
     [''StatID'', ''Year'', ''CountryID'', ''MineralID'', ''Production_tonnes'',
      ''ExportValue_BillionUSD'']"

definition sites_header :: "string list" where
  "sites_header =
     [''SiteID'', ''SiteName'', ''CountryID'', ''MineralID'', ''Latitude'', ''Longitude'',
      ''Production_tonnes'']"

subsection \<open>The pandas operations the code uses\<close>

text \<open>
  \<open>try: return pd.read_csv(f) except FileNotFoundError: return pd.DataFrame()\<close>:
  the body shared by the six loaders.
\<close>

definition read_csv_or_empty :: "string list \<Rightarrow> 'r list option \<Rightarrow> 'r dataframe" where
  "read_csv_or_empty header file =
     (case file of
        None \<Rightarrow> pd_DataFrame
      | Some rs \<Rightarrow> \<lparr>columns = header, rows = rs\<rparr>)"

text \<open>\<open>df[name]\<close>: the values of a column, KeyError when the frame has no such column.\<close>

definition getitem_column ::
  "'r dataframe \<Rightarrow> string \<Rightarrow> ('r \<Rightarrow> 'v) \<Rightarrow> py_error + 'v list" where
  "getitem_column df name sel =
     (if name \<in> set (columns df) then Inr (map sel (rows df)) else Inl (KeyError (PyStr name)))"

text \<open>\<open>df[mask]\<close>: the rows whose entry in a boolean mask is True.\<close>

definition getitem_mask :: "'r dataframe \<Rightarrow> bool list \<Rightarrow> 'r dataframe" where
  "getitem_mask df bs =
     \<lparr>columns = columns df, rows = map fst (filter snd (zip (rows df) bs))\<rparr>"

text \<open>\<open>df[df[name] == v]\<close>.\<close>

definition select_eq ::
  "'r dataframe \<Rightarrow> string \<Rightarrow> ('r \<Rightarrow> 'v) \<Rightarrow> 'v \<Rightarrow> py_error + 'r dataframe" where
  "select_eq df name sel v =
     (case getitem_column df name sel of
        Inl e \<Rightarrow> Inl e
      | Inr col \<Rightarrow> Inr (getitem_mask df (map (\<lambda>x. x = v) col)))"

definition empty_df :: "'r dataframe \<Rightarrow> bool" where
  "empty_df df = (columns df = [] \<or> rows df = [])"

definition iloc0 :: "'r dataframe \<Rightarrow> py_error + 'r" where
  "iloc0 df = (case rows df of [] \<Rightarrow> Inl IndexError | r # _ \<Rightarrow> Inr r)"

text \<open>\<open>if not df.empty: return df.iloc[0]; return None\<close>.\<close>

definition first_or_None :: "'r dataframe \<Rightarrow> py_error + 'r option" where
  "first_or_None df =
     (if \<not> empty_df df then
        (case iloc0 df of Inl e \<Rightarrow> Inl e | Inr r \<Rightarrow> Inr (Some r))
      else Inr None)"

section \<open>DatabaseManager\<close>

definition load_users :: "database \<Rightarrow> user_row dataframe" where
  "load_users db = read_csv_or_empty users_header (users_file db)"

definition load_roles :: "database \<Rightarrow> role_row dataframe" where
  "load_roles db = read_csv_or_empty roles_header (roles_file db)"

definition load_countries :: "database \<Rightarrow> country_row dataframe" where
  "load_countries db = read_csv_or_empty countries_header (countries_file db)"

definition load_minerals :: "database \<Rightarrow> mineral_row dataframe" where
  "load_minerals db = read_csv_or_empty minerals_header (minerals_file db)"

definition load_production_stats :: "database \<Rightarrow> stat_row dataframe" where
  "load_production_stats db =
     read_csv_or_empty production_stats_header (production_stats_file db)"

definition load_sites :: "database \<Rightarrow> site_row dataframe" where
  "load_sites db = read_csv_or_empty sites_header (sites_file db)"

definition get_user_by_username :: "database \<Rightarrow> string \<Rightarrow> py_error + user_row option" where
  "get_user_by_username db username =
     (let users_df = load_users db in
      case select_eq users_df ''Username'' Username username of
        Inl e \<Rightarrow> Inl e
      | Inr user \<Rightarrow> first_or_None user)"

definition db_get_role_by_id :: "database \<Rightarrow> int \<Rightarrow> py_error + role_row option" where
  "db_get_role_by_id db role_id =
     (let roles_df = load_roles db in
      case select_eq roles_df ''RoleID'' role_row.RoleID role_id of
        Inl e \<Rightarrow> Inl e
      | Inr role \<Rightarrow> first_or_None role)"

definition db_get_country_by_id :: "database \<Rightarrow> int \<Rightarrow> py_error + country_row option" where
  "db_get_country_by_id db country_id =
     (let countries_df = load_countries db in
      case select_eq countries_df ''CountryID'' country_row.CountryID country_id of
        Inl e \<Rightarrow> Inl e
      | Inr country \<Rightarrow> first_or_None country)"

definition db_get_mineral_by_id :: "database \<Rightarrow> int \<Rightarrow> py_error + mineral_row option" where
  "db_get_mineral_by_id db mineral_id =
     (let minerals_df = load_minerals db in
      case select_eq minerals_df ''MineralID'' mineral_row.MineralID mineral_id of
        Inl e \<Rightarrow> Inl e
      | Inr mineral \<Rightarrow> first_or_None mineral)"

section \<open>Entity model\<close>

record User =
  user_id :: int
  username :: string
  password_hash :: string
  role_id :: int
  email :: string

record Role =
  role_id :: int
  role_name :: string
  permissions :: string

record Country =
  country_id :: int
  country_name :: string
  gdp_billion_usd :: real
  mining_revenue_billion_usd :: real
  key_projects :: string

record Mineral =
  mineral_id :: int
  mineral_name :: string
  description :: string
  market_price_usd_per_tonne :: real

text \<open>
  The six attributes of a production record are numpy scalars taken from one row, so they
  share the dtype of that row. The record keeps the integer value of each of the five
  integer attributes, the export value, and the common dtype once, as \<open>scalar_dtype\<close>.
\<close>

record ProductionStats =
  stat_id :: int
  year :: int
  country_id :: int
  mineral_id :: int
  production_tonnes :: int
  export_value_billion_usd :: real
  scalar_dtype :: dtype

record Site =
  site_id :: int
  site_name :: string
  country_id :: int
  mineral_id :: int
  latitude :: real
  longitude :: real
  production_tonnes :: int

subsection \<open>Country and ProductionStats: derived values\<close>

definition get_mining_contribution_percentage :: "Country \<Rightarrow> real" where
  "get_mining_contribution_percentage self =
     (if gdp_billion_usd self > 0
      then (mining_revenue_billion_usd self / gdp_billion_usd self) * 100
      else 0)"

definition get_average_price_per_tonne :: "ProductionStats \<Rightarrow> real" where
  "get_average_price_per_tonne self =
     (if ProductionStats.production_tonnes self > 0
      then (export_value_billion_usd self * 1000000000)
             / real_of_int (ProductionStats.production_tonnes self)
      else 0)"

subsection \<open>Serialization\<close>

definition User_to_dict :: "User \<Rightarrow> (string \<times> pyval) list" where
  "User_to_dict self =
     [(''user_id'', PyInt (user_id self)),
      (''username'', PyStr (username self)),
      (''role_id'', PyInt (User.role_id self)),
      (''email'', PyStr (email self))]"

definition Role_to_dict :: "Role \<Rightarrow> (string \<times> pyval) list" where
  "Role_to_dict self =
     [(''role_id'', PyInt (Role.role_id self)),
      (''role_name'', PyStr (role_name self)),
      (''permissions'', PyStr (permissions self))]"

definition Country_to_dict :: "Country \<Rightarrow> (string \<times> pyval) list" where
  "Country_to_dict self =
     [(''country_id'', PyInt (Country.country_id self)),
      (''country_name'', PyStr (country_name self)),
      (''gdp_billion_usd'', PyFloat (gdp_billion_usd self)),
      (''mining_revenue_billion_usd'', PyFloat (mining_revenue_billion_usd self)),
      (''key_projects'', PyStr (key_projects self)),
      (''mining_contribution_pct'', PyFloat (get_mining_contribution_percentage self))]"

definition Mineral_to_dict :: "Mineral \<Rightarrow> (string \<times> pyval) list" where
  "Mineral_to_dict self =
     [(''mineral_id'', PyInt (Mineral.mineral_id self)),
      (''mineral_name'', PyStr (mineral_name self)),
      (''description'', PyStr (description self)),
      (''market_price_usd_per_tonne'', PyFloat (market_price_usd_per_tonne self))]"

definition ProductionStats_to_dict :: "ProductionStats \<Rightarrow> (string \<times> pyval) list" where
  "ProductionStats_to_dict self =
     [(''stat_id'', np_pyval (scalar_dtype self) (stat_id self)),
      (''year'', np_pyval (scalar_dtype self) (year self)),
      (''country_id'', np_pyval (scalar_dtype self) (ProductionStats.country_id self)),
      (''mineral_id'', np_pyval (scalar_dtype self) (ProductionStats.mineral_id self)),
      (''production_tonnes'',
         np_pyval (scalar_dtype self) (ProductionStats.production_tonnes self)),
      (''export_value_billion_usd'',
         (case scalar_dtype self of
            int64 \<Rightarrow> PyInt \<lfloor>export_value_billion_usd self\<rfloor>
          | float64 \<Rightarrow> PyFloat (export_value_billion_usd self))),
      (''avg_price_per_tonne'', PyFloat (get_average_price_per_tonne self))]"

definition Site_to_dict :: "Site \<Rightarrow> (string \<times> pyval) list" where
  "Site_to_dict self =
     [(''site_id'', PyInt (site_id self)),
      (''site_name'', PyStr (site_name self)),
      (''country_id'', PyInt (Site.country_id self)),
      (''mineral_id'', PyInt (Site.mineral_id self)),
      (''latitude'', PyFloat (latitude self)),
      (''longitude'', PyFloat (longitude self)),
      (''production_tonnes'', PyInt (Site.production_tonnes self))]"

subsection \<open>Role: permissions\<close>

text \<open>
  \<open>str.split(',')\<close> and \<open>str.strip()\<close> on ASCII text. Splitting the empty string gives
  one empty piece; stripping removes the white space of both ends.
\<close>

fun split_on :: "char \<Rightarrow> string \<Rightarrow> string list" where
  "split_on sep [] = [[]]"
| "split_on sep (c # cs) =
     (if c = sep then [] # split_on sep cs
      else (case split_on sep cs of
              [] \<Rightarrow> [[c]]
            | w # ws \<Rightarrow> (c # w) # ws))"

definition isspace :: "char \<Rightarrow> bool" where
  "isspace c =
     (c \<in> set [CHR 0x09, CHR 0x0A, CHR 0x0B, CHR 0x0C, CHR 0x0D,
               CHR 0x1C, CHR 0x1D, CHR 0x1E, CHR 0x1F, CHR 0x20])"

definition strip :: "string \<Rightarrow> string" where
  "strip s = rev (dropWhile isspace (rev (dropWhile isspace s)))"

definition get_permissions_list :: "Role \<Rightarrow> string list" where
  "get_permissions_list self =
     (if permissions self \<noteq> [] then map strip (split_on CHR '','' (permissions self))
      else [])"

definition has_permission :: "Role \<Rightarrow> string \<Rightarrow> bool" where
  "has_permission self permission =
     (let permissions_list = get_permissions_list self
      in permission \<in> set permissions_list)"

section \<open>AuthController\<close>

text \<open>
  The password check of the hashing library is a parameter \<open>check_password_hash\<close>:
  stored hash, provided password, verdict.
\<close>

definition verify_password :: "(string \<Rightarrow> string \<Rightarrow> bool) \<Rightarrow> string \<Rightarrow> string \<Rightarrow> bool" where
  "verify_password check_password_hash stored_hash provided_password =
     check_password_hash stored_hash provided_password"

definition User_of_row :: "user_row \<Rightarrow> User" where
  "User_of_row user_data =
     \<lparr>user_id = UserID user_data,
      username = Username user_data,
      password_hash = PasswordHash user_data,
      role_id = user_row.RoleID user_data,
      email = Email user_data\<rparr>"

definition authenticate_user ::
  "(string \<Rightarrow> string \<Rightarrow> bool) \<Rightarrow> database \<Rightarrow> string \<Rightarrow> string \<Rightarrow> py_error + User option" where
  "authenticate_user check_password_hash db username' password =
     (case get_user_by_username db username' of
        Inl e \<Rightarrow> Inl e
      | Inr None \<Rightarrow> Inr None
      | Inr (Some user_data) \<Rightarrow>
          (if verify_password check_password_hash (PasswordHash user_data) password
           then Inr (Some (User_of_row user_data))
           else Inr None))"

definition get_user_role :: "database \<Rightarrow> int \<Rightarrow> py_error + Role option" where
  "get_user_role db role_id' =
     (case db_get_role_by_id db role_id' of
        Inl e \<Rightarrow> Inl e
      | Inr None \<Rightarrow> Inr None
      | Inr (Some role_data) \<Rightarrow>
          Inr (Some \<lparr>role_id = role_row.RoleID role_data,
                     role_name = RoleName role_data,
                     permissions = Permissions role_data\<rparr>))"

definition check_permission :: "database \<Rightarrow> int \<Rightarrow> string \<Rightarrow> py_error + bool" where
  "check_permission db role_id' required_permission =
     (case get_user_role db role_id' of
        Inl e \<Rightarrow> Inl e
      | Inr None \<Rightarrow> Inr False
      | Inr (Some role) \<Rightarrow> Inr (has_permission role required_permission))"

definition get_all_users :: "database \<Rightarrow> User list" where
  "get_all_users db = map User_of_row (rows (load_users db))"

section \<open>DataController\<close>

definition Country_of_row :: "country_row \<Rightarrow> Country" where
  "Country_of_row country_data =
     \<lparr>Country.country_id = country_row.CountryID country_data,
      country_name = CountryName country_data,
      gdp_billion_usd = GDP_BillionUSD country_data,
      mining_revenue_billion_usd = MiningRevenue_BillionUSD country_data,
      key_projects = KeyProjects country_data\<rparr>"

definition Mineral_of_row :: "mineral_row \<Rightarrow> Mineral" where
  "Mineral_of_row mineral_data =
     \<lparr>Mineral.mineral_id = mineral_row.MineralID mineral_data,
      mineral_name = MineralName mineral_data,
      description = Description mineral_data,
      market_price_usd_per_tonne = MarketPriceUSD_per_tonne mineral_data\<rparr>"

text \<open>
  \<open>ProductionStats(stat_id=stat_data['StatID'], ...)\<close> on a row that \<open>iterrows\<close> yields
  with the dtype \<open>dt\<close>: each integer cell arrives cast to that dtype.
\<close>

definition ProductionStats_of_row :: "dtype \<Rightarrow> stat_row \<Rightarrow> ProductionStats" where
  "ProductionStats_of_row dt stat_data =
     \<lparr>stat_id = np_cast dt (StatID stat_data),
      year = np_cast dt (Year stat_data),
      country_id = np_cast dt (stat_row.CountryID stat_data),
      mineral_id = np_cast dt (stat_row.MineralID stat_data),
      production_tonnes = np_cast dt (stat_row.Production_tonnes stat_data),
      export_value_billion_usd = ExportValue_BillionUSD stat_data,
      scalar_dtype = dt\<rparr>"

definition Site_of_row :: "site_row \<Rightarrow> Site" where
  "Site_of_row site_data =
     \<lparr>site_id = SiteID site_data,
      site_name = SiteName site_data,
      country_id = site_row.CountryID site_data,
      mineral_id = site_row.MineralID site_data,
      latitude = Latitude site_data,
      longitude = Longitude site_data,
      production_tonnes = site_row.Production_tonnes site_data\<rparr>"

definition get_all_countries :: "database \<Rightarrow> Country list" where
  "get_all_countries db = map Country_of_row (rows (load_countries db))"

definition get_country_by_id :: "database \<Rightarrow> int \<Rightarrow> py_error + Country option" where
  "get_country_by_id db country_id' =
     (case db_get_country_by_id db country_id' of
        Inl e \<Rightarrow> Inl e
      | Inr None \<Rightarrow> Inr None
      | Inr (Some country_data) \<Rightarrow> Inr (Some (Country_of_row country_data)))"

definition get_country_by_name :: "database \<Rightarrow> string \<Rightarrow> py_error + Country option" where
  "get_country_by_name db country_name' =
     (let countries_df = load_countries db in
      case select_eq countries_df ''CountryName'' CountryName country_name' of
        Inl e \<Rightarrow> Inl e
      | Inr country_data \<Rightarrow>
          (if empty_df country_data then Inr None
           else (case iloc0 country_data of
                   Inl e \<Rightarrow> Inl e
                 | Inr r \<Rightarrow> Inr (Some (Country_of_row r)))))"

definition get_all_minerals :: "database \<Rightarrow> Mineral list" where
  "get_all_minerals db = map Mineral_of_row (rows (load_minerals db))"

definition get_mineral_by_id :: "database \<Rightarrow> int \<Rightarrow> py_error + Mineral option" where
  "get_mineral_by_id db mineral_id' =
     (case db_get_mineral_by_id db mineral_id' of
        Inl e \<Rightarrow> Inl e
      | Inr None \<Rightarrow> Inr None
      | Inr (Some mineral_data) \<Rightarrow> Inr (Some (Mineral_of_row mineral_data)))"

definition get_all_production_stats :: "database \<Rightarrow> ProductionStats list" where
  "get_all_production_stats db =
     map (ProductionStats_of_row (production_stats_dtype db)) (rows (load_production_stats db))"

definition get_production_by_country :: "database \<Rightarrow> int \<Rightarrow> py_error + ProductionStats list" where
  "get_production_by_country db country_id' =
     (let stats_df = load_production_stats db in
      case select_eq stats_df ''CountryID'' stat_row.CountryID country_id' of
        Inl e \<Rightarrow> Inl e
      | Inr country_stats \<Rightarrow>
          Inr (map (ProductionStats_of_row (production_stats_dtype db)) (rows country_stats)))"

definition get_production_by_mineral :: "database \<Rightarrow> int \<Rightarrow> py_error + ProductionStats list" where
  "get_production_by_mineral db mineral_id' =
     (let stats_df = load_production_stats db in
      case select_eq stats_df ''MineralID'' stat_row.MineralID mineral_id' of
        Inl e \<Rightarrow> Inl e
      | Inr mineral_stats \<Rightarrow>
          Inr (map (ProductionStats_of_row (production_stats_dtype db)) (rows mineral_stats)))"

definition get_all_sites :: "database \<Rightarrow> Site list" where
  "get_all_sites db = map Site_of_row (rows (load_sites db))"

definition get_sites_by_country :: "database \<Rightarrow> int \<Rightarrow> py_error + Site list" where
  "get_sites_by_country db country_id' =
     (let sites_df = load_sites db in
      case select_eq sites_df ''CountryID'' site_row.CountryID country_id' of
        Inl e \<Rightarrow> Inl e
      | Inr country_sites \<Rightarrow> Inr (map Site_of_row (rows country_sites)))"

definition get_sites_by_mineral :: "database \<Rightarrow> int \<Rightarrow> py_error + Site list" where
  "get_sites_by_mineral db mineral_id' =
     (let sites_df = load_sites db in
      case select_eq sites_df ''MineralID'' site_row.MineralID mineral_id' of
        Inl e \<Rightarrow> Inl e
      | Inr mineral_sites \<Rightarrow> Inr (map Site_of_row (rows mineral_sites)))"

section \<open>VisualizationController\<close>

text \<open>
  A Python dict keeps its keys in insertion order: an association list with one entry
  per key. Storing under a present key replaces the value in place, storing under a new
  key appends.
\<close>

definition dict_contains :: "('k \<times> 'v) list \<Rightarrow> 'k \<Rightarrow> bool" where
  "dict_contains d k = (k \<in> set (map fst d))"

fun dict_setitem :: "('k \<times> 'v) list \<Rightarrow> 'k \<Rightarrow> 'v \<Rightarrow> ('k \<times> 'v) list" where
  "dict_setitem [] k v = [(k, v)]"
| "dict_setitem ((k', v') # d) k v =
     (if k' = k then (k', v) # d else (k', v') # dict_setitem d k v)"

definition dict_getitem :: "(int \<times> 'v) list \<Rightarrow> int \<Rightarrow> py_error + 'v" where
  "dict_getitem d k = (case map_of d k of None \<Rightarrow> Inl (KeyError (PyInt k)) | Some v \<Rightarrow> Inr v)"

text \<open>
  The body of the first loop of \<open>create_production_by_country_pie_chart\<close>:
  \<open>if country_id not in country_production: country_production[country_id] = 0\<close>, then
  \<open>country_production[country_id] += stat.get_production()\<close>. The production is a numpy
  scalar, so the sum is the sum of its dtype (the Python \<open>0\<close> of a new key adds as a zero
  of that dtype).
\<close>

definition country_production_step ::
  "(int \<times> int) list \<Rightarrow> ProductionStats \<Rightarrow> py_error + (int \<times> int) list" where
  "country_production_step country_production stat =
     (let cid = ProductionStats.country_id stat;
          d = (if \<not> dict_contains country_production cid
               then dict_setitem country_production cid 0
               else country_production)
      in case dict_getitem d cid of
           Inl e \<Rightarrow> Inl e
         | Inr old \<Rightarrow>
             Inr (dict_setitem d cid
                    (np_add (scalar_dtype stat) old (ProductionStats.production_tonnes stat))))"

fun country_production_loop ::
  "(int \<times> int) list \<Rightarrow> ProductionStats list \<Rightarrow> py_error + (int \<times> int) list" where
  "country_production_loop country_production [] = Inr country_production"
| "country_production_loop country_production (stat # stats) =
     (case country_production_step country_production stat of
        Inl e \<Rightarrow> Inl e
      | Inr d \<Rightarrow> country_production_loop d stats)"

text \<open>
  The second loop: the name of each group's country, dropping the groups whose country
  is not found.
\<close>

fun country_names_loop ::
  "database \<Rightarrow> (int \<times> int) list \<Rightarrow> py_error + (string list \<times> int list)" where
  "country_names_loop db [] = Inr ([], [])"
| "country_names_loop db ((cid, production) # items) =
     (case get_country_by_id db cid of
        Inl e \<Rightarrow> Inl e
      | Inr country \<Rightarrow>
          (case country_names_loop db items of
             Inl e \<Rightarrow> Inl e
           | Inr (countries, productions) \<Rightarrow>
               (case country of
                  None \<Rightarrow> Inr (countries, productions)
                | Some c \<Rightarrow> Inr (country_name c # countries, production # productions))))"

text \<open>
  The chart functions, up to the data they hand to the plotting library: the labels and
  values of the pie, the x and y series of the trend and export charts.
\<close>

definition create_production_by_country_pie_chart ::
  "database \<Rightarrow> int \<Rightarrow> py_error + (string list \<times> int list)" where
  "create_production_by_country_pie_chart db mineral_id' =
     (case get_production_by_mineral db mineral_id' of
        Inl e \<Rightarrow> Inl e
      | Inr stats \<Rightarrow>
          (case country_production_loop [] stats of
             Inl e \<Rightarrow> Inl e
           | Inr country_production \<Rightarrow> country_names_loop db country_production))"

text \<open>
  \<open>if mineral_id: ... elif country_id: ... else: ...\<close>: an id that is \<open>None\<close> or 0
  is falsy.
\<close>

definition truthy_id :: "int option \<Rightarrow> int option" where
  "truthy_id x = (case x of None \<Rightarrow> None | Some i \<Rightarrow> if i \<noteq> 0 then Some i else None)"

definition chart_stats ::
  "database \<Rightarrow> int option \<Rightarrow> int option \<Rightarrow> py_error + ProductionStats list" where
  "chart_stats db mineral_id' country_id' =
     (case truthy_id mineral_id' of
        Some m \<Rightarrow> get_production_by_mineral db m
      | None \<Rightarrow>
          (case truthy_id country_id' of
             Some c \<Rightarrow> get_production_by_country db c
           | None \<Rightarrow> Inr (get_all_production_stats db)))"

definition create_production_trend_chart ::
  "database \<Rightarrow> int option \<Rightarrow> int option \<Rightarrow> py_error + (int list \<times> int list)" where
  "create_production_trend_chart db mineral_id' country_id' =
     (case chart_stats db mineral_id' country_id' of
        Inl e \<Rightarrow> Inl e
      | Inr stats \<Rightarrow>
          Inr (map year stats, map ProductionStats.production_tonnes stats))"

definition create_export_value_chart ::
  "database \<Rightarrow> int option \<Rightarrow> int option \<Rightarrow> py_error + (int list \<times> real list)" where
  "create_export_value_chart db mineral_id' country_id' =
     (case chart_stats db mineral_id' country_id' of
        Inl e \<Rightarrow> Inl e
      | Inr stats \<Rightarrow> Inr (map year stats, map export_value_billion_usd stats))"

section \<open>The application routes\<close>

text \<open>
  The names that the module-level statements of the application bind, each to an object
  that is not \<open>None\<close>: the imports, the Flask application, the three controllers, the
  decorator and the route functions. A name that is read and is not bound here (nor a
  builtin) raises NameError.
\<close>

datatype pyobject = NoneObject | Object

definition app_globals :: "(string \<times> pyobject) list" where
  "app_globals =
     map (\<lambda>n. (n, Object))
       [''Flask'', ''render_template'', ''request'', ''redirect'', ''url_for'', ''session'',
        ''flash'', ''AuthController'', ''DataController'', ''VisualizationController'',
        ''wraps'', ''app'', ''auth_controller'', ''data_controller'', ''viz_controller'',
        ''login_required'', ''index'', ''login'', ''logout'', ''dashboard'', ''minerals'',
        ''mineral_detail'', ''countries'', ''country_detail'', ''sites'', ''admin_users'',
        ''page_not_found'', ''internal_server_error'', ''analytics'', ''mining_map'']"

definition load_global :: "string \<Rightarrow> py_error + pyobject" where
  "load_global name =
     (case map_of app_globals name of None \<Rightarrow> Inl (NameError name) | Some obj \<Rightarrow> Inr obj)"

text \<open>
  What a route answers: a redirect to an endpoint after flashing a message with its
  category, or the mineral page with the values handed to the template.
\<close>

datatype response =
    Redirect string string string
  | RenderMineralDetail
      "Mineral option" "ProductionStats list" "Site list"
      "(int list \<times> int list) option" "(int list \<times> real list) option"
      "(string list \<times> int list) option"

text \<open>
  \<open>mineral_detail\<close> under \<open>login_required\<close>. After the lookup the route tests
  \<open>Mineral is None\<close>, reading the global name \<open>Mineral\<close>, not the local \<open>mineral\<close>.
\<close>

definition mineral_detail ::
  "(string \<times> pyval) list \<Rightarrow> database \<Rightarrow> int \<Rightarrow> py_error + response" where
  "mineral_detail session db mineral_id' =
     (if \<not> dict_contains session ''user_id''
      then Inr (Redirect ''login'' ''Please log in to access this page.'' ''warning'')
      else
        (case get_mineral_by_id db mineral_id' of
           Inl e \<Rightarrow> Inl e
         | Inr mineral \<Rightarrow>
        (case load_global ''Mineral'' of
           Inl e \<Rightarrow> Inl e
         | Inr Mineral_object \<Rightarrow>
             if Mineral_object = NoneObject
             then Inr (Redirect ''minerals'' ''Mineral not found.'' ''danger'')
             else
        (case get_production_by_mineral db mineral_id' of
           Inl e \<Rightarrow> Inl e
         | Inr production_stats \<Rightarrow>
        (case get_sites_by_mineral db mineral_id' of
           Inl e \<Rightarrow> Inl e
         | Inr sites \<Rightarrow>
             if production_stats \<noteq> [] then
               (case create_production_trend_chart db (Some mineral_id') None of
                  Inl e \<Rightarrow> Inl e
                | Inr production_trend_chart \<Rightarrow>
               (case create_export_value_chart db (Some mineral_id') None of
                  Inl e \<Rightarrow> Inl e
                | Inr export_value_chart \<Rightarrow>
               (case create_production_by_country_pie_chart db mineral_id' of
                  Inl e \<Rightarrow> Inl e
                | Inr production_pie_chart \<Rightarrow>
                    Inr (RenderMineralDetail mineral production_stats sites
                           (Some production_trend_chart) (Some export_value_chart)
                           (Some production_pie_chart)))))
             else Inr (RenderMineralDetail mineral production_stats sites None None None))))))"

section \<open>Reference aggregation\<close>

text \<open>
  Grouping as the specification words it: the country ids in the order of their first
  occurrence, each with the sum of the production of its rows.
\<close>

fun first_seen :: "'a list \<Rightarrow> 'a list" where
  "first_seen [] = []"
| "first_seen (x # xs) = x # filter (\<lambda>y. y \<noteq> x) (first_seen xs)"


section \<open>Sample data\<close>

definition sample_check_password_hash :: "string \<Rightarrow> string \<Rightarrow> bool" where
  "sample_check_password_hash stored_hash provided_password =
     (stored_hash = ''hash:'' @ provided_password)"

definition alice_row :: user_row where
  "alice_row =
     \<lparr>UserID = 1, Username = ''alice'', PasswordHash = ''hash:secret'',
      RoleID = 1, Email = ''alice@example.org''\<rparr>"

definition admin_role_row :: role_row where
  "admin_role_row =
     \<lparr>role_row.RoleID = 1, RoleName = ''Administrator'',
      Permissions = ''manage_users, view_reports''\<rparr>"

definition sa_row :: country_row where
  "sa_row =
     \<lparr>country_row.CountryID = 1, CountryName = ''South Africa'', GDP_BillionUSD = 100,
      MiningRevenue_BillionUSD = 25, KeyProjects = ''Platinum belt''\<rparr>"

definition bw_row :: country_row where
  "bw_row =
     \<lparr>country_row.CountryID = 2, CountryName = ''Botswana'', GDP_BillionUSD = 0,
      MiningRevenue_BillionUSD = 5, KeyProjects = ''Jwaneng''\<rparr>"

definition lithium_row :: mineral_row where
  "lithium_row =
     \<lparr>mineral_row.MineralID = 1, MineralName = ''Lithium'', Description = ''Battery metal'',
      MarketPriceUSD_per_tonne = 15000\<rparr>"

definition mk_stat :: "int \<Rightarrow> int \<Rightarrow> int \<Rightarrow> stat_row" where
  "mk_stat sid cid tonnes =
     \<lparr>StatID = sid, Year = 2023, CountryID = cid, MineralID = 1,
      Production_tonnes = tonnes, ExportValue_BillionUSD = 2\<rparr>"

definition sample_db :: database where
  "sample_db =
     \<lparr>users_file = Some [alice_row],
      roles_file = Some [admin_role_row],
      countries_file = Some [sa_row, bw_row],
      minerals_file = Some [lithium_row],
      production_stats_file = Some [mk_stat 1 1 100, mk_stat 2 2 50, mk_stat 3 1 30],
      production_stats_dtype = float64,
      sites_file = Some []\<rparr>"

text \<open>A data folder in which the production table names a country that no row defines.\<close>

definition orphan_db :: database where
  "orphan_db =
     \<lparr>users_file = Some [],
      roles_file = Some [],
      countries_file = Some [sa_row],
      minerals_file = Some [lithium_row],
      production_stats_file = Some [mk_stat 1 1 100, mk_stat 2 2 50],
      production_stats_dtype = float64,
      sites_file = Some []\<rparr>"

text \<open>
  A data folder whose production table is written with integers only, so that its rows
  are \<open>int64\<close>, and whose two rows of country 1 add up to \<open>2\<^sup>6\<^sup>3\<close>.
\<close>

definition overflow_db :: database where
  "overflow_db =
     \<lparr>users_file = Some [],
      roles_file = Some [],
      countries_file = Some [sa_row],
      minerals_file = Some [lithium_row],
      production_stats_file = Some [mk_stat 1 1 9223372036854775807, mk_stat 2 1 1],
      production_stats_dtype = int64,
      sites_file = Some []\<rparr>"

text \<open>A data folder with no file at all.\<close>

definition missing_db :: database where
  "missing_db =
     \<lparr>users_file = None, roles_file = None, countries_file = None,
      minerals_file = None, production_stats_file = None,
      production_stats_dtype = float64, sites_file = None\<rparr>"

section \<open>Facts about the data access layer\<close>

text \<open>
  Selecting the rows whose column equals a value is a filter, provided the frame has the
  column; the point lookups then return the first such row. On a missing file the frame
  has no column and the selection raises.
\<close>

lemma select_eq_rows:
  "name \<in> set (columns df) \<Longrightarrow>
   select_eq df name sel v = Inr \<lparr>columns = columns df, rows = filter (\<lambda>r. sel r = v) (rows df)\<rparr>"
proof -
  have "map fst (filter snd (zip xs (map (\<lambda>x. x = v) (map sel xs)))) = filter (\<lambda>r. sel r = v) xs" for xs
    by (induction xs) auto
  moreover assume "name \<in> set (columns df)"
  ultimately show ?thesis
    by (simp add: select_eq_def getitem_column_def getitem_mask_def)
qed

lemma select_eq_missing:
  "name \<notin> set (columns df) \<Longrightarrow> select_eq df name sel v = Inl (KeyError (PyStr name))"
  by (simp add: select_eq_def getitem_column_def)

lemma first_or_None_find:
  "cols \<noteq> [] \<Longrightarrow>
   first_or_None \<lparr>columns = cols, rows = filter P xs\<rparr> = Inr (find P xs)"
proof (induction xs)
  case Nil
  then show ?case by (simp add: first_or_None_def empty_df_def)
next
  case (Cons x xs)
  then show ?case
    by (cases "filter P xs") (auto simp: first_or_None_def empty_df_def iloc0_def split: if_splits)
qed

lemma header_members:
  "''Username'' \<in> set users_header" "''RoleID'' \<in> set roles_header"
  "''CountryID'' \<in> set countries_header" "''CountryName'' \<in> set countries_header"
  "''MineralID'' \<in> set minerals_header"
  "''CountryID'' \<in> set production_stats_header" "''MineralID'' \<in> set production_stats_header"
  "''CountryID'' \<in> set sites_header" "''MineralID'' \<in> set sites_header"
  by (simp_all add: users_header_def roles_header_def countries_header_def minerals_header_def
        production_stats_header_def sites_header_def)

lemma lookup_present:
  "name \<in> set header \<Longrightarrow>
   (case select_eq (read_csv_or_empty header (Some xs)) name sel v of
      Inl e \<Rightarrow> Inl e | Inr d \<Rightarrow> first_or_None d) = Inr (find (\<lambda>r. sel r = v) xs)"
proof -
  assume m: "name \<in> set header"
  then have ne: "header \<noteq> []" by auto
  show ?thesis
    using m first_or_None_find [OF ne, of "\<lambda>r. sel r = v" xs]
    by (simp add: read_csv_or_empty_def select_eq_rows)
qed

lemma lookup_missing:
  "(case select_eq (read_csv_or_empty header None) name sel v of
      Inl e \<Rightarrow> Inl e | Inr d \<Rightarrow> first_or_None d) = Inl (KeyError (PyStr name))"
  by (simp add: read_csv_or_empty_def pd_DataFrame_def select_eq_missing)

lemma get_user_by_username_present:
  "users_file db = Some us \<Longrightarrow>
   get_user_by_username db u = Inr (find (\<lambda>r. Username r = u) us)"
  by (simp add: get_user_by_username_def load_users_def lookup_present header_members)

lemma get_user_by_username_missing:
  "users_file db = None \<Longrightarrow> get_user_by_username db u = Inl (KeyError (PyStr ''Username''))"
  by (simp add: get_user_by_username_def load_users_def lookup_missing)

lemma db_get_role_by_id_present:
  "roles_file db = Some rs \<Longrightarrow>
   db_get_role_by_id db i = Inr (find (\<lambda>r. role_row.RoleID r = i) rs)"
  by (simp add: db_get_role_by_id_def load_roles_def lookup_present header_members)

lemma db_get_role_by_id_missing:
  "roles_file db = None \<Longrightarrow> db_get_role_by_id db i = Inl (KeyError (PyStr ''RoleID''))"
  by (simp add: db_get_role_by_id_def load_roles_def lookup_missing)

lemma db_get_country_by_id_present:
  "countries_file db = Some cs \<Longrightarrow>
   db_get_country_by_id db i = Inr (find (\<lambda>r. country_row.CountryID r = i) cs)"
  by (simp add: db_get_country_by_id_def load_countries_def lookup_present header_members)

lemma db_get_mineral_by_id_present:
  "minerals_file db = Some ms \<Longrightarrow>
   db_get_mineral_by_id db i = Inr (find (\<lambda>r. mineral_row.MineralID r = i) ms)"
  by (simp add: db_get_mineral_by_id_def load_minerals_def lookup_present header_members)

lemma get_country_by_id_present:
  "countries_file db = Some cs \<Longrightarrow>
   get_country_by_id db i = Inr (map_option Country_of_row (find (\<lambda>r. country_row.CountryID r = i) cs))"
  by (simp add: get_country_by_id_def db_get_country_by_id_present split: option.splits)

lemma get_mineral_by_id_present:
  "minerals_file db = Some ms \<Longrightarrow>
   get_mineral_by_id db i = Inr (map_option Mineral_of_row (find (\<lambda>r. mineral_row.MineralID r = i) ms))"
  by (simp add: get_mineral_by_id_def db_get_mineral_by_id_present split: option.splits)

lemma get_user_role_present:
  "roles_file db = Some rs \<Longrightarrow>
   get_user_role db i =
     Inr (map_option (\<lambda>r. \<lparr>role_id = role_row.RoleID r, role_name = RoleName r, permissions = Permissions r\<rparr>)
            (find (\<lambda>r. role_row.RoleID r = i) rs))"
  by (simp add: get_user_role_def db_get_role_by_id_present split: option.splits)

lemma get_production_by_country_present:
  "production_stats_file db = Some ss \<Longrightarrow>
   get_production_by_country db i =
     Inr (map (ProductionStats_of_row (production_stats_dtype db))
            (filter (\<lambda>r. stat_row.CountryID r = i) ss))"
  by (simp add: get_production_by_country_def load_production_stats_def read_csv_or_empty_def
        select_eq_rows header_members)


lemma get_all_production_stats_present:
  "production_stats_file db = Some ss \<Longrightarrow>
   get_all_production_stats db = map (ProductionStats_of_row (production_stats_dtype db)) ss"
  by (simp add: get_all_production_stats_def load_production_stats_def read_csv_or_empty_def)


lemma np_cast_exact: "\<bar>x\<bar> \<le> 2 ^ 53 \<Longrightarrow> np_cast dt x = x"
  by (cases dt) (simp_all add: np_cast_def round_float64_def)


lemma round_float64_samples:
  "round_float64 (2 ^ 53 + 1) = 2 ^ 53"
  "round_float64 (2 ^ 63 - 1) = 2 ^ 63"
  "wrap_int64 (2 ^ 63) = - (2 ^ 63)"
  by code_simp+

lemma get_all_sites_present:
  "sites_file db = Some ts \<Longrightarrow> get_all_sites db = map Site_of_row ts"
  by (simp add: get_all_sites_def load_sites_def read_csv_or_empty_def)

lemma get_all_users_present:
  "users_file db = Some us \<Longrightarrow> get_all_users db = map User_of_row us"
  by (simp add: get_all_users_def load_users_def read_csv_or_empty_def)

text \<open>
  The sample data, evaluated.
\<close>

lemma sample_tables:
  "get_all_countries sample_db = [Country_of_row sa_row, Country_of_row bw_row]"
  "get_all_production_stats sample_db =
     map (ProductionStats_of_row float64) [mk_stat 1 1 100, mk_stat 2 2 50, mk_stat 3 1 30]"
  "get_all_countries orphan_db = [Country_of_row sa_row]"
  "get_all_production_stats orphan_db =
     map (ProductionStats_of_row float64) [mk_stat 1 1 100, mk_stat 2 2 50]"
  "get_all_production_stats overflow_db =
     map (ProductionStats_of_row int64) [mk_stat 1 1 9223372036854775807, mk_stat 2 1 1]"
  by (simp_all add: get_all_countries_def get_all_production_stats_def load_countries_def
        load_production_stats_def read_csv_or_empty_def sample_db_def orphan_db_def
        overflow_db_def)

lemma sample_ids:
  "Country.country_id (Country_of_row sa_row) = 1"
  "Country.country_id (Country_of_row bw_row) = 2"
  "stat_row.CountryID (mk_stat a b c) = b"
  "ProductionStats.country_id (ProductionStats_of_row dt (mk_stat a b c)) = np_cast dt b"
  "ProductionStats.production_tonnes (ProductionStats_of_row dt (mk_stat a b c)) = np_cast dt c"
  "scalar_dtype (ProductionStats_of_row dt (mk_stat a b c)) = dt"
  by (simp_all add: Country_of_row_def ProductionStats_of_row_def sa_row_def bw_row_def
        mk_stat_def)

section \<open>Derived values\<close>

text \<open>
  Claim C6. The mining contribution of a country is its mining revenue divided by its
  GDP, times 100, when the GDP is positive, and 0 otherwise. A country with GDP 0 (and
  revenue 5) gives 0; a country with GDP 100 and revenue 25 gives 25.
\<close>

theorem mining_contribution_percentage:
  "get_mining_contribution_percentage c =
     (if gdp_billion_usd c > 0
      then mining_revenue_billion_usd c / gdp_billion_usd c * 100 else 0)
   \<and> get_mining_contribution_percentage (Country_of_row bw_row) = 0
   \<and> get_mining_contribution_percentage (Country_of_row sa_row) = 25"
  by (simp add: get_mining_contribution_percentage_def Country_of_row_def bw_row_def sa_row_def)


section \<open>Authentication and permissions\<close>

text \<open>
  Claim C3. In a user store, authenticating with a username that no row has and
  authenticating with a username that a row has, but with a password that the check
  rejects against the hash of the first such row, both return \<open>None\<close>: the two failures
  are the same value.
\<close>

theorem authenticate_failures_coincide:
  assumes "users_file db = Some us"
    and "find (\<lambda>r. Username r = unknown) us = None"
    and "find (\<lambda>r. Username r = known) us = Some row"
    and "\<not> check_password_hash (PasswordHash row) wrong_password"
  shows "authenticate_user check_password_hash db unknown any_password = Inr None
       \<and> authenticate_user check_password_hash db known wrong_password = Inr None"
  using assms
  by (simp add: authenticate_user_def get_user_by_username_present verify_password_def)

theorem authenticate_failures_coincide_witness:
  "users_file sample_db = Some [alice_row]
 \<and> find (\<lambda>r. Username r = ''nouser'') [alice_row] = None
 \<and> find (\<lambda>r. Username r = ''alice'') [alice_row] = Some alice_row
 \<and> \<not> sample_check_password_hash (PasswordHash alice_row) ''wrong''
 \<and> authenticate_user sample_check_password_hash sample_db ''nouser'' ''secret'' = Inr None
 \<and> authenticate_user sample_check_password_hash sample_db ''alice'' ''wrong'' = Inr None"
proof -
  have h1: "users_file sample_db = Some [alice_row]"
    by (simp add: sample_db_def)
  have h2: "find (\<lambda>r. Username r = ''nouser'') [alice_row] = None"
    by (simp add: alice_row_def)
  have h3: "find (\<lambda>r. Username r = ''alice'') [alice_row] = Some alice_row"
    by (simp add: alice_row_def)
  have h4: "\<not> sample_check_password_hash (PasswordHash alice_row) ''wrong''"
    by (simp add: alice_row_def sample_check_password_hash_def)
  show ?thesis
    using h1 h2 h3 h4
      authenticate_failures_coincide
        [where db = sample_db and us = "[alice_row]" and row = alice_row
           and unknown = "''nouser''" and known = "''alice''"
           and check_password_hash = sample_check_password_hash
           and wrong_password = "''wrong''" and any_password = "''secret''"]
    by simp
qed

text \<open>
  Claim C10. The serialization of a user has exactly the keys \<open>user_id\<close>,
  \<open>username\<close>, \<open>role_id\<close> and \<open>email\<close>, in this order, and does not depend on the
  password hash that the entity holds; a successful authentication returns the entity
  with the hash of the stored row, and its serialization carries the four other fields
  of that row only.
\<close>

theorem user_to_dict_omits_password_hash:
  "map fst (User_to_dict u) = [''user_id'', ''username'', ''role_id'', ''email'']
 \<and> User_to_dict (u\<lparr>password_hash := h\<rparr>) = User_to_dict u
 \<and> (authenticate_user check_password_hash db name password = Inr (Some u) \<longrightarrow>
      (\<exists>row. get_user_by_username db name = Inr (Some row)
           \<and> password_hash u = PasswordHash row
           \<and> User_to_dict u =
               [(''user_id'', PyInt (UserID row)), (''username'', PyStr (Username row)),
                (''role_id'', PyInt (user_row.RoleID row)), (''email'', PyStr (Email row))]))"
  by (auto simp: User_to_dict_def authenticate_user_def User_of_row_def
           split: sum.splits option.splits if_splits)

theorem user_to_dict_omits_password_hash_witness:
  "authenticate_user sample_check_password_hash sample_db ''alice'' ''secret''
     = Inr (Some (User_of_row alice_row))
 \<and> password_hash (User_of_row alice_row) = ''hash:secret''
 \<and> User_to_dict (User_of_row alice_row) =
      [(''user_id'', PyInt 1), (''username'', PyStr ''alice''),
       (''role_id'', PyInt 1), (''email'', PyStr ''alice@example.org'')]"
proof -
  have f: "users_file sample_db = Some [alice_row]"
    by (simp add: sample_db_def)
  have a: "authenticate_user sample_check_password_hash sample_db ''alice'' ''secret''
     = Inr (Some (User_of_row alice_row))"
    by (simp add: authenticate_user_def get_user_by_username_present [OF f] verify_password_def
          sample_check_password_hash_def alice_row_def)
  from a user_to_dict_omits_password_hash
         [of "User_of_row alice_row" undefined sample_check_password_hash sample_db
             "''alice''" "''secret''"]
  obtain row where r: "get_user_by_username sample_db ''alice'' = Inr (Some row)"
      "password_hash (User_of_row alice_row) = PasswordHash row"
      "User_to_dict (User_of_row alice_row) =
               [(''user_id'', PyInt (UserID row)), (''username'', PyStr (Username row)),
                (''role_id'', PyInt (user_row.RoleID row)), (''email'', PyStr (Email row))]"
    by blast
  from r(1) have "row = alice_row"
    by (simp add: get_user_by_username_present [OF f] alice_row_def)
  with a r show ?thesis by (simp add: alice_row_def)
qed

text \<open>
  Claim C5. \<open>has_permission\<close> is membership of the given string, compared as it is, in
  the list of the comma-separated pieces of the permission string, each stripped of
  surrounding white space. With the permissions \<open>manage_users, view_reports\<close> the
  permission \<open>manage_users\<close> is granted and \<open>Manage_Users\<close> is not.
\<close>

theorem has_permission_exact_match:
  "has_permission r p =
     (permissions r \<noteq> [] \<and> p \<in> set (map strip (split_on CHR '','' (permissions r))))
 \<and> get_permissions_list
       \<lparr>role_id = 1, role_name = ''Administrator'',
        permissions = ''manage_users, view_reports''\<rparr> = [''manage_users'', ''view_reports'']
 \<and> has_permission
       \<lparr>role_id = 1, role_name = ''Administrator'',
        permissions = ''manage_users, view_reports''\<rparr> ''manage_users''
 \<and> \<not> has_permission
       \<lparr>role_id = 1, role_name = ''Administrator'',
        permissions = ''manage_users, view_reports''\<rparr> ''Manage_Users''"
proof -
  have l: "get_permissions_list
       \<lparr>role_id = 1, role_name = ''Administrator'',
        permissions = ''manage_users, view_reports''\<rparr> = [''manage_users'', ''view_reports'']"
    by (simp add: get_permissions_list_def strip_def isspace_def)
  have g: "has_permission r p =
     (permissions r \<noteq> [] \<and> p \<in> set (map strip (split_on CHR '','' (permissions r))))"
    by (simp add: has_permission_def get_permissions_list_def)
  show ?thesis
    by (rule conjI [OF g]) (simp add: l has_permission_def)
qed

text \<open>
  The same through \<open>check_permission\<close>, which resolves the role first; an unknown role
  id denies.
\<close>

lemma check_permission_sample:
  "check_permission sample_db 1 ''manage_users'' = Inr True"
  "check_permission sample_db 1 ''Manage_Users'' = Inr False"
  "check_permission sample_db 7 ''manage_users'' = Inr False"
proof -
  have f: "roles_file sample_db = Some [admin_role_row]" by (simp add: sample_db_def)
  have l: "get_permissions_list
       \<lparr>role_id = 1, role_name = ''Administrator'',
        permissions = ''manage_users, view_reports''\<rparr> = [''manage_users'', ''view_reports'']"
    by (simp add: get_permissions_list_def strip_def isspace_def)
  show "check_permission sample_db 1 ''manage_users'' = Inr True"
    "check_permission sample_db 1 ''Manage_Users'' = Inr False"
    "check_permission sample_db 7 ''manage_users'' = Inr False"
    by (simp_all add: check_permission_def get_user_role_present [OF f] admin_role_row_def
          has_permission_def l)
qed

section \<open>Lookups\<close>

text \<open>
  Claim C8. With the users file and the roles file missing, loading all users gives no
  row and no entity, but the point lookups do not return \<open>None\<close>: the lookup by username
  raises \<open>KeyError('Username')\<close> and the lookup of a role by id raises
  \<open>KeyError('RoleID')\<close>, since the empty frame that stands for the missing file has no
  column.
\<close>

theorem missing_users_file_lookup_raises:
  "users_file missing_db = None
 \<and> rows (load_users missing_db) = []
 \<and> get_all_users missing_db = []
 \<and> get_user_by_username missing_db ''alice'' = Inl (KeyError (PyStr ''Username''))
 \<and> db_get_role_by_id missing_db 1 = Inl (KeyError (PyStr ''RoleID''))"
  by (simp add: missing_db_def get_user_by_username_missing db_get_role_by_id_missing
        load_users_def get_all_users_def read_csv_or_empty_def pd_DataFrame_def)

lemma load_global_Mineral: "load_global ''Mineral'' = Inl (NameError ''Mineral'')"
  by (simp add: load_global_def app_globals_def)

text \<open>
  Whatever the mineral id, a logged-in request on a present minerals file ends in the
  same error.
\<close>

lemma mineral_detail_logged_in_raises:
  "dict_contains session ''user_id'' \<Longrightarrow> minerals_file db = Some ms \<Longrightarrow>
   mineral_detail session db i = Inl (NameError ''Mineral'')"
  by (simp add: mineral_detail_def get_mineral_by_id_present load_global_Mineral)

text \<open>
  Claim C2. For a logged-in session and a mineral id that no row has, the data
  controller returns \<open>None\<close>, and the route then raises \<open>NameError\<close> on the name
  \<open>Mineral\<close> instead of flashing the not-found message and redirecting.
\<close>

theorem mineral_detail_missing_mineral_raises:
  "minerals_file sample_db = Some [lithium_row]
 \<and> get_mineral_by_id sample_db 999 = Inr None
 \<and> mineral_detail [(''user_id'', PyInt 1)] sample_db 999 = Inl (NameError ''Mineral'')"
proof -
  have f: "minerals_file sample_db = Some [lithium_row]"
    by (simp add: sample_db_def)
  have g: "get_mineral_by_id sample_db 999 = Inr None"
    by (simp add: get_mineral_by_id_present [OF f] lithium_row_def)
  have "mineral_detail [(''user_id'', PyInt 1)] sample_db 999 = Inl (NameError ''Mineral'')"
    by (simp add: mineral_detail_def dict_contains_def g load_global_Mineral)
  with f g show ?thesis by simp
qed

text \<open>
  Claim C9, as stated, fails for the users: the serialization of a user never holds the
  password hash that its row stores. The one user of the sample store serializes to four
  fields, none of which is the stored hash.
\<close>

theorem stored_fields_roundtrip_counterexample:
  "map User_to_dict (get_all_users sample_db) =
     [[(''user_id'', PyInt 1), (''username'', PyStr ''alice''),
       (''role_id'', PyInt 1), (''email'', PyStr ''alice@example.org'')]]
 \<and> users_file sample_db = Some [alice_row]
 \<and> PasswordHash alice_row = ''hash:secret''
 \<and> PyStr (PasswordHash alice_row)
       \<notin> set (map snd (concat (map User_to_dict (get_all_users sample_db))))"
proof -
  have f: "users_file sample_db = Some [alice_row]"
    by (simp add: sample_db_def)
  have d: "map User_to_dict (get_all_users sample_db) =
     [[(''user_id'', PyInt 1), (''username'', PyStr ''alice''),
       (''role_id'', PyInt 1), (''email'', PyStr ''alice@example.org'')]]"
    by (simp add: get_all_users_present [OF f] User_to_dict_def User_of_row_def alice_row_def)
  have h: "PasswordHash alice_row = ''hash:secret''"
    by (simp add: alice_row_def)
  show ?thesis
    unfolding d h using f by simp
qed

text \<open>
  Claim C9, amended. For an id that a row of the table has, the lookup by id of a country,
  of a mineral and of a role returns an entity whose serialization holds the stored
  fields of the first row with that id (the country with its derived percentage in
  addition). Production statistics, sites and users have no lookup by id; loaded with
  their load-all operation, a site serializes to the stored fields of its row, a
  production record to the stored fields of its row as scalars of the dtype of the
  table's rows (the stored integers themselves up to \<open>2\<^sup>5\<^sup>3\<close> in magnitude, as floats
  when the dtype is \<open>float64\<close>) with the derived price in addition, and a user to the
  id, name, role id and email of its row, without the password hash.
\<close>

theorem stored_fields_roundtrip:
  "(countries_file db = Some cs \<and> find (\<lambda>r. country_row.CountryID r = i) cs = Some cr \<longrightarrow>
      (\<exists>c. get_country_by_id db i = Inr (Some c)
         \<and> Country_to_dict c =
             [(''country_id'', PyInt (country_row.CountryID cr)),
              (''country_name'', PyStr (CountryName cr)),
              (''gdp_billion_usd'', PyFloat (GDP_BillionUSD cr)),
              (''mining_revenue_billion_usd'', PyFloat (MiningRevenue_BillionUSD cr)),
              (''key_projects'', PyStr (KeyProjects cr)),
              (''mining_contribution_pct'', PyFloat (get_mining_contribution_percentage c))]))
 \<and> (minerals_file db = Some ms \<and> find (\<lambda>r. mineral_row.MineralID r = j) ms = Some mr \<longrightarrow>
      (\<exists>m. get_mineral_by_id db j = Inr (Some m)
         \<and> Mineral_to_dict m =
             [(''mineral_id'', PyInt (mineral_row.MineralID mr)),
              (''mineral_name'', PyStr (MineralName mr)),
              (''description'', PyStr (Description mr)),
              (''market_price_usd_per_tonne'', PyFloat (MarketPriceUSD_per_tonne mr))]))
 \<and> (roles_file db = Some rs \<and> find (\<lambda>r. role_row.RoleID r = k) rs = Some rr \<longrightarrow>
      (\<exists>ro. get_user_role db k = Inr (Some ro)
         \<and> Role_to_dict ro =
             [(''role_id'', PyInt (role_row.RoleID rr)),
              (''role_name'', PyStr (RoleName rr)),
              (''permissions'', PyStr (Permissions rr))]))
 \<and> (sites_file db = Some ts \<longrightarrow>
      map Site_to_dict (get_all_sites db) =
        map (\<lambda>r. [(''site_id'', PyInt (SiteID r)), (''site_name'', PyStr (SiteName r)),
                   (''country_id'', PyInt (site_row.CountryID r)),
                   (''mineral_id'', PyInt (site_row.MineralID r)),
                   (''latitude'', PyFloat (Latitude r)), (''longitude'', PyFloat (Longitude r)),
                   (''production_tonnes'', PyInt (site_row.Production_tonnes r))]) ts)
 \<and> (production_stats_file db = Some ss \<and> production_stats_dtype db = dt \<longrightarrow>
      map ProductionStats_to_dict (get_all_production_stats db) =
        map (\<lambda>r. [(''stat_id'', np_pyval dt (np_cast dt (StatID r))),
                   (''year'', np_pyval dt (np_cast dt (Year r))),
                   (''country_id'', np_pyval dt (np_cast dt (stat_row.CountryID r))),
                   (''mineral_id'', np_pyval dt (np_cast dt (stat_row.MineralID r))),
                   (''production_tonnes'',
                      np_pyval dt (np_cast dt (stat_row.Production_tonnes r))),
                   (''export_value_billion_usd'',
                      (case dt of int64 \<Rightarrow> PyInt \<lfloor>ExportValue_BillionUSD r\<rfloor>
                       | float64 \<Rightarrow> PyFloat (ExportValue_BillionUSD r))),
                   (''avg_price_per_tonne'',
                      PyFloat (get_average_price_per_tonne (ProductionStats_of_row dt r)))]) ss)
 \<and> (\<bar>x\<bar> \<le> 2 ^ 53 \<longrightarrow>
      np_cast dt x = x \<and> np_pyval int64 x = PyInt x \<and> np_pyval float64 x = PyFloat (real_of_int x))
 \<and> (users_file db = Some us \<longrightarrow>
      map User_to_dict (get_all_users db) =
        map (\<lambda>r. [(''user_id'', PyInt (UserID r)), (''username'', PyStr (Username r)),
                   (''role_id'', PyInt (user_row.RoleID r)), (''email'', PyStr (Email r))]) us)"
proof -
  have lookups:
    "(countries_file db = Some cs \<and> find (\<lambda>r. country_row.CountryID r = i) cs = Some cr \<longrightarrow>
      (\<exists>c. get_country_by_id db i = Inr (Some c)
         \<and> Country_to_dict c =
             [(''country_id'', PyInt (country_row.CountryID cr)),
              (''country_name'', PyStr (CountryName cr)),
              (''gdp_billion_usd'', PyFloat (GDP_BillionUSD cr)),
              (''mining_revenue_billion_usd'', PyFloat (MiningRevenue_BillionUSD cr)),
              (''key_projects'', PyStr (KeyProjects cr)),
              (''mining_contribution_pct'', PyFloat (get_mining_contribution_percentage c))]))
 \<and> (minerals_file db = Some ms \<and> find (\<lambda>r. mineral_row.MineralID r = j) ms = Some mr \<longrightarrow>
      (\<exists>m. get_mineral_by_id db j = Inr (Some m)
         \<and> Mineral_to_dict m =
             [(''mineral_id'', PyInt (mineral_row.MineralID mr)),
              (''mineral_name'', PyStr (MineralName mr)),
              (''description'', PyStr (Description mr)),
              (''market_price_usd_per_tonne'', PyFloat (MarketPriceUSD_per_tonne mr))]))
 \<and> (roles_file db = Some rs \<and> find (\<lambda>r. role_row.RoleID r = k) rs = Some rr \<longrightarrow>
      (\<exists>ro. get_user_role db k = Inr (Some ro)
         \<and> Role_to_dict ro =
             [(''role_id'', PyInt (role_row.RoleID rr)),
              (''role_name'', PyStr (RoleName rr)),
              (''permissions'', PyStr (Permissions rr))]))"
    by (simp add: get_country_by_id_present get_mineral_by_id_present get_user_role_present
          Country_to_dict_def Mineral_to_dict_def Role_to_dict_def
          Country_of_row_def Mineral_of_row_def)
  have sites: "sites_file db = Some ts \<longrightarrow>
      map Site_to_dict (get_all_sites db) =
        map (\<lambda>r. [(''site_id'', PyInt (SiteID r)), (''site_name'', PyStr (SiteName r)),
                   (''country_id'', PyInt (site_row.CountryID r)),
                   (''mineral_id'', PyInt (site_row.MineralID r)),
                   (''latitude'', PyFloat (Latitude r)), (''longitude'', PyFloat (Longitude r)),
                   (''production_tonnes'', PyInt (site_row.Production_tonnes r))]) ts"
    by (simp add: get_all_sites_present Site_to_dict_def Site_of_row_def)
  have stats: "production_stats_file db = Some ss \<and> production_stats_dtype db = dt \<longrightarrow>
      map ProductionStats_to_dict (get_all_production_stats db) =
        map (\<lambda>r. [(''stat_id'', np_pyval dt (np_cast dt (StatID r))),
                   (''year'', np_pyval dt (np_cast dt (Year r))),
                   (''country_id'', np_pyval dt (np_cast dt (stat_row.CountryID r))),
                   (''mineral_id'', np_pyval dt (np_cast dt (stat_row.MineralID r))),
                   (''production_tonnes'',
                      np_pyval dt (np_cast dt (stat_row.Production_tonnes r))),
                   (''export_value_billion_usd'',
                      (case dt of int64 \<Rightarrow> PyInt \<lfloor>ExportValue_BillionUSD r\<rfloor>
                       | float64 \<Rightarrow> PyFloat (ExportValue_BillionUSD r))),
                   (''avg_price_per_tonne'',
                      PyFloat (get_average_price_per_tonne (ProductionStats_of_row dt r)))]) ss"
    by (auto simp: get_all_production_stats_present ProductionStats_to_dict_def
          ProductionStats_of_row_def split: dtype.splits)
  have cast: "\<bar>x\<bar> \<le> 2 ^ 53 \<longrightarrow>
      np_cast dt x = x \<and> np_pyval int64 x = PyInt x \<and> np_pyval float64 x = PyFloat (real_of_int x)"
    by (simp add: np_cast_exact np_pyval_def)
  have users: "users_file db = Some us \<longrightarrow>
      map User_to_dict (get_all_users db) =
        map (\<lambda>r. [(''user_id'', PyInt (UserID r)), (''username'', PyStr (Username r)),
                   (''role_id'', PyInt (user_row.RoleID r)), (''email'', PyStr (Email r))]) us"
    by (simp add: get_all_users_present User_to_dict_def User_of_row_def)
  from lookups sites stats cast users show ?thesis
    by blast
qed

theorem stored_fields_roundtrip_witness:
  "(\<exists>c. get_country_by_id sample_db 1 = Inr (Some c)
       \<and> Country_to_dict c =
           [(''country_id'', PyInt 1), (''country_name'', PyStr ''South Africa''),
            (''gdp_billion_usd'', PyFloat 100), (''mining_revenue_billion_usd'', PyFloat 25),
            (''key_projects'', PyStr ''Platinum belt''),
            (''mining_contribution_pct'', PyFloat (get_mining_contribution_percentage c))])
 \<and> (\<exists>m. get_mineral_by_id sample_db 1 = Inr (Some m)
       \<and> Mineral_to_dict m =
           [(''mineral_id'', PyInt 1), (''mineral_name'', PyStr ''Lithium''),
            (''description'', PyStr ''Battery metal''),
            (''market_price_usd_per_tonne'', PyFloat 15000)])
 \<and> (\<exists>ro. get_user_role sample_db 1 = Inr (Some ro)
       \<and> Role_to_dict ro =
           [(''role_id'', PyInt 1), (''role_name'', PyStr ''Administrator''),
            (''permissions'', PyStr ''manage_users, view_reports'')])
 \<and> map Site_to_dict (get_all_sites sample_db) = []
 \<and> map (map snd) (map ProductionStats_to_dict (get_all_production_stats orphan_db)) =
       [[PyFloat 1, PyFloat 2023, PyFloat 1, PyFloat 1, PyFloat 100, PyFloat 2,
         PyFloat (get_average_price_per_tonne (ProductionStats_of_row float64 (mk_stat 1 1 100)))],
        [PyFloat 2, PyFloat 2023, PyFloat 2, PyFloat 1, PyFloat 50, PyFloat 2,
         PyFloat (get_average_price_per_tonne (ProductionStats_of_row float64 (mk_stat 2 2 50)))]]
 \<and> map User_to_dict (get_all_users sample_db) =
       [[(''user_id'', PyInt 1), (''username'', PyStr ''alice''),
         (''role_id'', PyInt 1), (''email'', PyStr ''alice@example.org'')]]"
proof -
  note t = stored_fields_roundtrip
          [of sample_db "[sa_row, bw_row]" 1 sa_row "[lithium_row]" 1 lithium_row
              "[admin_role_row]" 1 admin_role_row "[]" _ _ 0 "[alice_row]"]
  note u = stored_fields_roundtrip
          [where db = orphan_db and ss = "[mk_stat 1 1 100, mk_stat 2 2 50]" and dt = float64
             and x = 100]
  have c: "np_cast float64 x = x" if "\<bar>x\<bar> \<le> 2 ^ 53" for x
    using that by (rule np_cast_exact)
  have "map (map snd) (map ProductionStats_to_dict (get_all_production_stats orphan_db)) =
       [[PyFloat 1, PyFloat 2023, PyFloat 1, PyFloat 1, PyFloat 100, PyFloat 2,
         PyFloat (get_average_price_per_tonne (ProductionStats_of_row float64 (mk_stat 1 1 100)))],
        [PyFloat 2, PyFloat 2023, PyFloat 2, PyFloat 1, PyFloat 50, PyFloat 2,
         PyFloat (get_average_price_per_tonne (ProductionStats_of_row float64 (mk_stat 2 2 50)))]]"
    using u by (simp add: orphan_db_def mk_stat_def c np_pyval_def)
  moreover have "(\<exists>c. get_country_by_id sample_db 1 = Inr (Some c)
       \<and> Country_to_dict c =
           [(''country_id'', PyInt 1), (''country_name'', PyStr ''South Africa''),
            (''gdp_billion_usd'', PyFloat 100), (''mining_revenue_billion_usd'', PyFloat 25),
            (''key_projects'', PyStr ''Platinum belt''),
            (''mining_contribution_pct'', PyFloat (get_mining_contribution_percentage c))])
 \<and> (\<exists>m. get_mineral_by_id sample_db 1 = Inr (Some m)
       \<and> Mineral_to_dict m =
           [(''mineral_id'', PyInt 1), (''mineral_name'', PyStr ''Lithium''),
            (''description'', PyStr ''Battery metal''),
            (''market_price_usd_per_tonne'', PyFloat 15000)])
 \<and> (\<exists>ro. get_user_role sample_db 1 = Inr (Some ro)
       \<and> Role_to_dict ro =
           [(''role_id'', PyInt 1), (''role_name'', PyStr ''Administrator''),
            (''permissions'', PyStr ''manage_users, view_reports'')])
 \<and> map Site_to_dict (get_all_sites sample_db) = []
 \<and> map User_to_dict (get_all_users sample_db) =
       [[(''user_id'', PyInt 1), (''username'', PyStr ''alice''),
         (''role_id'', PyInt 1), (''email'', PyStr ''alice@example.org'')]]"
    using t
    by (simp add: sample_db_def sa_row_def bw_row_def lithium_row_def admin_role_row_def
          alice_row_def)
  ultimately show ?thesis by simp
qed

section \<open>Production by country\<close>

lemma mset_concat_groups:
  "distinct ks \<Longrightarrow>
   mset (concat (map (\<lambda>k. filter (\<lambda>x. f x = k) xs) ks)) = mset (filter (\<lambda>x. f x \<in> set ks) xs)"
proof (induction ks)
  case Nil
  then show ?case by simp
next
  case (Cons k ks)
  then have k: "k \<notin> set ks" and d: "distinct ks" by simp_all
  have "mset (filter (\<lambda>x. f x = k) xs) + mset (filter (\<lambda>x. f x \<in> set ks) xs)
      = mset (filter (\<lambda>x. f x \<in> set (k # ks)) xs)"
    using k by (induction xs) auto
  with Cons.IH [OF d] show ?case by simp
qed

text \<open>
  Claim C1, as stated, fails: when a production row names a country that the countries
  table does not have, the groups of the known countries lose that row. In the sample
  below the only known country is 1, its group holds one row, and the table has two.
\<close>

theorem production_by_country_partition_counterexample:
  "map (get_production_by_country orphan_db \<circ> Country.country_id) (get_all_countries orphan_db)
     = [Inr [ProductionStats_of_row float64 (mk_stat 1 1 100)]]
 \<and> get_all_production_stats orphan_db
     = [ProductionStats_of_row float64 (mk_stat 1 1 100),
        ProductionStats_of_row float64 (mk_stat 2 2 50)]
 \<and> mset (concat [[ProductionStats_of_row float64 (mk_stat 1 1 100)]])
     \<noteq> mset (get_all_production_stats orphan_db)"
proof -
  have f: "production_stats_file orphan_db = Some [mk_stat 1 1 100, mk_stat 2 2 50]"
    and t: "production_stats_dtype orphan_db = float64"
    by (simp_all add: orphan_db_def)
  have a: "map (get_production_by_country orphan_db \<circ> Country.country_id)
             (get_all_countries orphan_db)
             = [Inr [ProductionStats_of_row float64 (mk_stat 1 1 100)]]"
    by (simp add: sample_tables sample_ids get_production_by_country_present [OF f] t)
  have "size (mset (concat [[ProductionStats_of_row float64 (mk_stat 1 1 100)]]))
          \<noteq> size (mset (get_all_production_stats orphan_db))"
    by (simp add: sample_tables)
  then have c: "mset (concat [[ProductionStats_of_row float64 (mk_stat 1 1 100)]])
     \<noteq> mset (get_all_production_stats orphan_db)"
    by metis
  from a c show ?thesis by (simp add: sample_tables)
qed

text \<open>
  Claim C1, amended. When the production file is present, the known countries have
  pairwise different ids and every row of the production file names a known country, the
  groups returned by \<open>get_production_by_country\<close> for the known countries are the rows of
  each country in file order, and together they hold every production row exactly once.
\<close>

theorem production_by_country_partition:
  assumes "production_stats_file db = Some ss"
    and "distinct (map Country.country_id (get_all_countries db))"
    and "stat_row.CountryID ` set ss \<subseteq> Country.country_id ` set (get_all_countries db)"
  shows "\<exists>groups.
           map (\<lambda>c. get_production_by_country db (Country.country_id c)) (get_all_countries db)
             = map Inr groups
         \<and> groups = map (\<lambda>c. map (ProductionStats_of_row (production_stats_dtype db))
                                 (filter (\<lambda>r. stat_row.CountryID r = Country.country_id c) ss))
                        (get_all_countries db)
         \<and> mset (concat groups) = mset (get_all_production_stats db)"
proof -
  let ?of_row = "ProductionStats_of_row (production_stats_dtype db)"
  let ?ks = "map Country.country_id (get_all_countries db)"
  let ?groups = "map (\<lambda>c. map ?of_row (filter (\<lambda>r. stat_row.CountryID r = Country.country_id c) ss))
                   (get_all_countries db)"
  have a: "map (\<lambda>c. get_production_by_country db (Country.country_id c)) (get_all_countries db)
             = map Inr ?groups"
    by (simp add: get_production_by_country_present [OF assms(1)])
  have "concat ?groups
          = map ?of_row (concat (map (\<lambda>k. filter (\<lambda>r. stat_row.CountryID r = k) ss) ?ks))"
    by (simp add: map_concat comp_def)
  then have "mset (concat ?groups)
          = image_mset ?of_row (mset (filter (\<lambda>r. stat_row.CountryID r \<in> set ?ks) ss))"
    using mset_concat_groups [OF assms(2), of stat_row.CountryID ss] by simp
  also have "filter (\<lambda>r. stat_row.CountryID r \<in> set ?ks) ss = ss"
    using assms(3) by (auto simp: filter_id_conv)
  finally have b: "mset (concat ?groups) = mset (get_all_production_stats db)"
    by (simp add: get_all_production_stats_present [OF assms(1)])
  from a b show ?thesis by blast
qed

theorem production_by_country_partition_witness:
  "production_stats_file sample_db = Some [mk_stat 1 1 100, mk_stat 2 2 50, mk_stat 3 1 30]
 \<and> distinct (map Country.country_id (get_all_countries sample_db))
 \<and> stat_row.CountryID ` set [mk_stat 1 1 100, mk_stat 2 2 50, mk_stat 3 1 30]
      \<subseteq> Country.country_id ` set (get_all_countries sample_db)
 \<and> (\<exists>groups.
       map (\<lambda>c. get_production_by_country sample_db (Country.country_id c))
         (get_all_countries sample_db) = map Inr groups
     \<and> groups =
         [[ProductionStats_of_row float64 (mk_stat 1 1 100),
           ProductionStats_of_row float64 (mk_stat 3 1 30)],
          [ProductionStats_of_row float64 (mk_stat 2 2 50)]]
     \<and> mset (concat groups) = mset (get_all_production_stats sample_db))"
proof -
  have h1: "production_stats_file sample_db
              = Some [mk_stat 1 1 100, mk_stat 2 2 50, mk_stat 3 1 30]"
    and t: "production_stats_dtype sample_db = float64"
    by (simp_all add: sample_db_def)
  have h2: "distinct (map Country.country_id (get_all_countries sample_db))"
    by (simp add: sample_tables sample_ids)
  have h3: "stat_row.CountryID ` set [mk_stat 1 1 100, mk_stat 2 2 50, mk_stat 3 1 30]
      \<subseteq> Country.country_id ` set (get_all_countries sample_db)"
    by (simp add: sample_tables sample_ids)
  have g: "map (\<lambda>c. map (ProductionStats_of_row (production_stats_dtype sample_db))
                     (filter (\<lambda>r. stat_row.CountryID r = Country.country_id c)
                        [mk_stat 1 1 100, mk_stat 2 2 50, mk_stat 3 1 30]))
             (get_all_countries sample_db)
         = [[ProductionStats_of_row float64 (mk_stat 1 1 100),
             ProductionStats_of_row float64 (mk_stat 3 1 30)],
            [ProductionStats_of_row float64 (mk_stat 2 2 50)]]"
    by (simp add: sample_tables sample_ids t)
  from h1 h2 h3 production_by_country_partition [OF h1 h2 h3] show ?thesis
    unfolding g by blast
qed

section \<open>Aggregation for the pie chart\<close>


lemma set_first_seen [simp]: "set (first_seen xs) = set xs"
  by (induction xs) auto

lemma distinct_first_seen [simp]: "distinct (first_seen xs)"
  by (induction xs) auto













text \<open>
  The second loop keeps the order of the groups and drops those whose country id has no
  row.
\<close>

lemma country_names_loop_present:
  "countries_file db = Some cs \<Longrightarrow>
   country_names_loop db d =
     Inr (map (\<lambda>(cid, production).
                 country_name (Country_of_row (the (find (\<lambda>r. country_row.CountryID r = cid) cs))))
            (filter (\<lambda>(cid, production). find (\<lambda>r. country_row.CountryID r = cid) cs \<noteq> None) d),
          map snd
            (filter (\<lambda>(cid, production). find (\<lambda>r. country_row.CountryID r = cid) cs \<noteq> None) d))"
  by (induction d) (auto simp: get_country_by_id_present split: option.splits)




end
